theory Spec2Isabelle
  imports Complex_Main
begin

section \<open>Data model of the orchestration layer of tts-with-logging.py\<close>

text \<open>
  A Python \<open>str\<close> is a sequence of Unicode code points, and \<open>len\<close> counts code
  points; it is modelled as a list of code-point numbers. Audio buffers and
  reference embeddings are float tensors on which the orchestrator does no
  arithmetic; they are lists of reals. Calls to \<open>logger\<close> only write to the log
  and are left out of the model.
\<close>

type_synonym pystr = "nat list"
type_synonym audio = "real list"
type_synonym ref_s = "real list"
type_synonym chunk = "nat \<times> audio"

text \<open>One item of the segmenter's sequence: the loops destructure it as \<open>_, ps, _\<close>.\<close>

type_synonym segment = "pystr \<times> pystr \<times> audio option"

definition str_lit :: "string \<Rightarrow> pystr" where
  "str_lit s = map of_char s"

text \<open>
  Exceptions. \<open>GrError m\<close> is a \<open>gr.exceptions.Error\<close> raised by a collaborator,
  \<open>GrErrorOf e\<close> is the value of \<open>gr.Error(e)\<close> built by the handlers (lines 86, 142);
  both are instances of the class that \<open>except gr.exceptions.Error\<close> catches.
\<close>

datatype exn =
    KeyError
  | IndexError
  | OtherError pystr
  | GrError pystr
  | GrErrorOf exn

fun is_gr_error :: "exn \<Rightarrow> bool" where
  "is_gr_error (GrError m) = True"
| "is_gr_error (GrErrorOf e) = True"
| "is_gr_error e = False"

text \<open>
  The lazy sequence returned by a pipeline call: it ends, raises, or yields an
  item and continues. The sequence over a given text is finite.
\<close>

datatype 'a gen = Stop | Raise exn | Yield 'a "'a gen"

text \<open>The items a sequence yields before it ends or raises, and how it ends.\<close>

fun items :: "'a gen \<Rightarrow> 'a list" where
  "items Stop = []"
| "items (Raise e) = []"
| "items (Yield x g) = x # items g"

fun ending :: "'a gen \<Rightarrow> exn option" where
  "ending Stop = None"
| "ending (Raise e) = Some e"
| "ending (Yield x g) = ending g"

text \<open>
  A \<open>KPipeline\<close>: calling it gives the segment sequence (the third argument is
  \<open>None\<close> when the caller leaves \<open>speed\<close> out, as \<open>tokenize_first\<close> does), and
  \<open>load_voice\<close> gives the voice's reference pack or raises.
\<close>

record pipeline =
  call :: "pystr \<Rightarrow> pystr \<Rightarrow> real option \<Rightarrow> segment gen"
  load_voice :: "pystr \<Rightarrow> exn + ref_s list"

type_synonym kmodel = "pystr \<Rightarrow> ref_s \<Rightarrow> real \<Rightarrow> exn + audio"

text \<open>The module-level state the functions read (lines 28, 31, 38-43, 48).\<close>

record env =
  CHAR_LIMIT :: "int option"
  CUDA_AVAILABLE :: bool
  models :: "bool \<Rightarrow> kmodel option"
  pipelines :: "nat \<Rightarrow> pipeline option"

text \<open>
  The module as the source builds it: \<open>CHAR_LIMIT = None if IS_DUPLICATE else 500000\<close>,
  \<open>CUDA_AVAILABLE = False\<close>, \<open>models\<close> a dict comprehension over \<open>[False]\<close>, and
  \<open>pipelines\<close> a dict comprehension over the characters of \<open>'ab'\<close>. The loaded
  model and the pipeline constructor are external and taken as parameters.
\<close>

definition module_env :: "bool \<Rightarrow> kmodel \<Rightarrow> (nat \<Rightarrow> pipeline) \<Rightarrow> env" where
  "module_env IS_DUPLICATE KModel KPipeline =
     \<lparr> CHAR_LIMIT = (if IS_DUPLICATE then None else Some 500000),
       CUDA_AVAILABLE = False,
       models = map_of (map (\<lambda>gpu. (gpu, KModel)) [False]),
       pipelines = map_of (map (\<lambda>lang_code. (lang_code, KPipeline lang_code)) (str_lit ''ab'')) \<rparr>"

section \<open>Effects: a trace of the calls to collaborators, and a result or an exception\<close>

datatype event =
    LoadVoice pystr
  | Run pystr pystr "real option"
  | Pull segment
  | Forward bool pystr ref_s real
  | GrWarning exn
  | GrInfo pystr
  | Emit chunk

type_synonym 'a io = "event list \<times> (exn + 'a)"

definition io_return :: "'a \<Rightarrow> 'a io" where
  "io_return x = ([], Inr x)"

definition io_raise :: "exn \<Rightarrow> 'a io" where
  "io_raise e = ([], Inl e)"

definition io_tell :: "event \<Rightarrow> unit io" where
  "io_tell ev = ([ev], Inr ())"

definition io_lift :: "exn + 'a \<Rightarrow> 'a io" where
  "io_lift r = ([], r)"

fun io_bind :: "'a io \<Rightarrow> ('a \<Rightarrow> 'b io) \<Rightarrow> 'b io" where
  "io_bind (evs, Inl e) f = (evs, Inl e)"
| "io_bind (evs, Inr x) f = (case f x of (evs', r) \<Rightarrow> (evs @ evs', r))"

section \<open>Python primitives\<close>

text \<open>
  \<open>str.isspace\<close> on one character: the code points of general category Zs or
  bidirectional class WS, B or S.
\<close>

definition py_isspace :: "nat \<Rightarrow> bool" where
  "py_isspace c \<longleftrightarrow>
     (0x09 \<le> c \<and> c \<le> 0x0D) \<or> (0x1C \<le> c \<and> c \<le> 0x20) \<or> c = 0x85 \<or> c = 0xA0 \<or>
     c = 0x1680 \<or> (0x2000 \<le> c \<and> c \<le> 0x200A) \<or> c = 0x2028 \<or> c = 0x2029 \<or>
     c = 0x202F \<or> c = 0x205F \<or> c = 0x3000"

definition py_strip :: "pystr \<Rightarrow> pystr" where
  "py_strip s = rev (dropWhile py_isspace (rev (dropWhile py_isspace s)))"

text \<open>The slice \<open>s[:n]\<close>; a negative bound counts from the end.\<close>

definition py_slice_to :: "int \<Rightarrow> 'a list \<Rightarrow> 'a list" where
  "py_slice_to n s =
     (if 0 \<le> n then take (nat n) s else take (nat (int (length s) + n)) s)"

text \<open>Indexing \<open>xs[i]\<close>: a negative index counts from the end, out of range raises.\<close>

definition py_index :: "'a list \<Rightarrow> int \<Rightarrow> exn + 'a" where
  "py_index xs i =
     (if 0 \<le> i \<and> i < int (length xs) then Inr (xs ! nat i)
      else if i < 0 \<and> - int (length xs) \<le> i then Inr (xs ! nat (int (length xs) + i))
      else Inl IndexError)"

section \<open>The operations\<close>

text \<open>Lines 61 and 113: \<open>text if CHAR_LIMIT is None else text.strip()[:CHAR_LIMIT]\<close>.\<close>

definition normalize_text :: "int option \<Rightarrow> pystr \<Rightarrow> pystr" where
  "normalize_text limit text =
     (case limit of None \<Rightarrow> text | Some n \<Rightarrow> py_slice_to n (py_strip text))"

text \<open>Lines 64, 102, 116: \<open>pipelines[voice[0]]\<close>.\<close>

definition lookup_pipeline :: "env \<Rightarrow> pystr \<Rightarrow> pipeline io" where
  "lookup_pipeline env voice =
     (case voice of
        [] \<Rightarrow> io_raise IndexError
      | c # _ \<Rightarrow> (case pipelines env c of None \<Rightarrow> io_raise KeyError | Some p \<Rightarrow> io_return p))"

text \<open>Lines 65, 117: \<open>pipeline.load_voice(voice)\<close>.\<close>

definition do_load_voice :: "pipeline \<Rightarrow> pystr \<Rightarrow> (ref_s list) io" where
  "do_load_voice p voice = ([LoadVoice voice], load_voice p voice)"

text \<open>\<open>models[gpu](ps, ref_s, speed)\<close>: the key lookup, then the call.\<close>

definition call_model :: "env \<Rightarrow> bool \<Rightarrow> pystr \<Rightarrow> ref_s \<Rightarrow> real \<Rightarrow> audio io" where
  "call_model env gpu ps r speed =
     (case models env gpu of
        None \<Rightarrow> io_raise KeyError
      | Some m \<Rightarrow> ([Forward gpu ps r speed], m ps r speed))"

text \<open>Lines 54-56.\<close>

definition forward_gpu :: "env \<Rightarrow> pystr \<Rightarrow> ref_s \<Rightarrow> real \<Rightarrow> audio io" where
  "forward_gpu env ps r speed = call_model env True ps r speed"

text \<open>
  The \<open>try\<close>/\<open>except gr.exceptions.Error\<close> block, lines 70-86 and again lines
  126-142; the two copies differ only in the text passed to \<open>gr.Info\<close>, which is
  the first argument here. An exception of another class is not caught. An
  exception raised inside the handler by the second \<open>models[False]\<close> call
  propagates as it is.
\<close>

definition synthesize :: "pystr \<Rightarrow> env \<Rightarrow> bool \<Rightarrow> pystr \<Rightarrow> ref_s \<Rightarrow> real \<Rightarrow> audio io" where
  "synthesize info env use_gpu ps r speed =
     (case (if use_gpu then forward_gpu env ps r speed
            else call_model env False ps r speed) of
        (evs, Inr a) \<Rightarrow> (evs, Inr a)
      | (evs, Inl e) \<Rightarrow>
          if is_gr_error e then
            (if use_gpu then
               io_bind (evs @ [GrWarning e, GrInfo info], Inr ())
                 (\<lambda>_. call_model env False ps r speed)
             else (evs, Inl (GrErrorOf e)))
          else (evs, Inl e))"

definition info_first :: pystr where
  "info_first = str_lit ''Retrying with CPU. To avoid this error, change Hardware to CPU.''"

definition info_all :: pystr where
  "info_all = str_lit ''Switching to CPU''"

text \<open>Lines 59-92. The loop body returns on the first item, so the rest is never pulled.\<close>

definition generate_first ::
  "env \<Rightarrow> pystr \<Rightarrow> pystr \<Rightarrow> real \<Rightarrow> bool \<Rightarrow> (chunk option \<times> pystr) io" where
  "generate_first env text0 voice speed use_gpu0 =
     (let text = normalize_text (CHAR_LIMIT env) text0 in
      io_bind (lookup_pipeline env voice) (\<lambda>p.
      io_bind (do_load_voice p voice) (\<lambda>pack.
      let use_gpu = (use_gpu0 \<and> CUDA_AVAILABLE env) in
      io_bind (io_tell (Run text voice (Some speed))) (\<lambda>_.
      case call p text voice (Some speed) of
        Stop \<Rightarrow> io_return (None, [])
      | Raise e \<Rightarrow> io_raise e
      | Yield seg rest \<Rightarrow>
          io_bind (io_tell (Pull seg)) (\<lambda>_.
          let ps = fst (snd seg) in
          io_bind (io_lift (py_index pack (int (length ps) - 1))) (\<lambda>r.
          io_bind (synthesize info_first env use_gpu ps r speed) (\<lambda>a.
          io_return (Some (24000, a), ps))))))))"

text \<open>Lines 95-97.\<close>

definition predict :: "env \<Rightarrow> pystr \<Rightarrow> pystr \<Rightarrow> real \<Rightarrow> (chunk option) io" where
  "predict env text voice speed =
     io_bind (generate_first env text voice speed False) (\<lambda>res. io_return (fst res))"

text \<open>Lines 100-108.\<close>

definition tokenize_first :: "env \<Rightarrow> pystr \<Rightarrow> pystr \<Rightarrow> pystr io" where
  "tokenize_first env text voice =
     io_bind (lookup_pipeline env voice) (\<lambda>p.
     io_bind (io_tell (Run text voice None)) (\<lambda>_.
     case call p text voice None of
       Stop \<Rightarrow> io_return []
     | Raise e \<Rightarrow> io_raise e
     | Yield seg rest \<Rightarrow>
         io_bind (io_tell (Pull seg)) (\<lambda>_. io_return (fst (snd seg)))))"

text \<open>
  Lines 122-149, the loop of \<open>generate_all\<close> over the segment sequence; each
  \<open>yield\<close> is an \<open>Emit\<close> event. \<open>first\<close> is the flag of line 119.
\<close>

fun generate_all_loop ::
  "env \<Rightarrow> ref_s list \<Rightarrow> real \<Rightarrow> bool \<Rightarrow> bool \<Rightarrow> segment gen \<Rightarrow> unit io" where
  "generate_all_loop env pack speed use_gpu first Stop = io_return ()"
| "generate_all_loop env pack speed use_gpu first (Raise e) = io_raise e"
| "generate_all_loop env pack speed use_gpu first (Yield seg rest) =
     io_bind (io_tell (Pull seg)) (\<lambda>_.
     let ps = fst (snd seg) in
     io_bind (io_lift (py_index pack (int (length ps) - 1))) (\<lambda>r.
     io_bind (synthesize info_all env use_gpu ps r speed) (\<lambda>a.
     io_bind (io_tell (Emit (24000, a))) (\<lambda>_.
     io_bind (if first then io_tell (Emit (24000, [0])) else io_return ()) (\<lambda>_.
     generate_all_loop env pack speed use_gpu False rest)))))"

text \<open>Lines 111-151.\<close>

definition generate_all :: "env \<Rightarrow> pystr \<Rightarrow> pystr \<Rightarrow> real \<Rightarrow> bool \<Rightarrow> unit io" where
  "generate_all env text0 voice speed use_gpu0 =
     (let text = normalize_text (CHAR_LIMIT env) text0 in
      io_bind (lookup_pipeline env voice) (\<lambda>p.
      io_bind (do_load_voice p voice) (\<lambda>pack.
      let use_gpu = (use_gpu0 \<and> CUDA_AVAILABLE env) in
      io_bind (io_tell (Run text voice (Some speed))) (\<lambda>_.
      generate_all_loop env pack speed use_gpu True (call p text voice (Some speed))))))"

section \<open>Reading a trace\<close>

text \<open>The chunks a run yields, the segments it pulls, the backend calls it makes.\<close>

fun chunks :: "event list \<Rightarrow> chunk list" where
  "chunks [] = []"
| "chunks (Emit c # evs) = c # chunks evs"
| "chunks (ev # evs) = chunks evs"

fun pulled :: "event list \<Rightarrow> segment list" where
  "pulled [] = []"
| "pulled (Pull s # evs) = s # pulled evs"
| "pulled (ev # evs) = pulled evs"

fun forwards :: "event list \<Rightarrow> (bool \<times> pystr \<times> ref_s \<times> real) list" where
  "forwards [] = []"
| "forwards (Forward g ps r sp # evs) = (g, ps, r, sp) # forwards evs"
| "forwards (ev # evs) = forwards evs"

fun segmenter_inputs :: "event list \<Rightarrow> (pystr \<times> pystr \<times> real option) list" where
  "segmenter_inputs [] = []"
| "segmenter_inputs (Run t v sp # evs) = (t, v, sp) # segmenter_inputs evs"
| "segmenter_inputs (ev # evs) = segmenter_inputs evs"

fun notices :: "event list \<Rightarrow> event list" where
  "notices [] = []"
| "notices (GrWarning e # evs) = GrWarning e # notices evs"
| "notices (GrInfo m # evs) = GrInfo m # notices evs"
| "notices (ev # evs) = notices evs"

text \<open>The silence marker of line 149: \<open>(24000, torch.zeros(1).numpy())\<close>.\<close>

definition silence :: chunk where
  "silence = (24000, [0])"

text \<open>
  The work done for one segment, lines 69-86 and 125-142: the reference vector
  \<open>pack[len(ps)-1]\<close>, then the \<open>try\<close> block. It is the per-segment part of
  \<open>generate_first\<close> and \<open>generate_all_loop\<close> above, named here to state
  properties of a whole run.
\<close>

definition segment_io :: "pystr \<Rightarrow> env \<Rightarrow> ref_s list \<Rightarrow> real \<Rightarrow> bool \<Rightarrow> segment \<Rightarrow> audio io" where
  "segment_io info env pack speed use_gpu seg =
     io_bind (io_lift (py_index pack (int (length (fst (snd seg))) - 1)))
       (\<lambda>r. synthesize info env use_gpu (fst (snd seg)) r speed)"

text \<open>The chunks a stream of successful segments yields, given the flag \<open>first\<close>.\<close>

definition emitted :: "bool \<Rightarrow> audio list \<Rightarrow> chunk list" where
  "emitted first auds =
     (case auds of
        [] \<Rightarrow> []
      | a # as \<Rightarrow> (24000, a) # (if first then [silence] else []) @ map (Pair 24000) as)"

text \<open>
  The spec's wording of \<open>predict\<close>, to compare with the source's: run
  \<open>generateFirst\<close> with the accelerated backend forced off and keep the chunk,
  dropping the phoneme string.
\<close>

definition predict_spec :: "env \<Rightarrow> pystr \<Rightarrow> pystr \<Rightarrow> real \<Rightarrow> (chunk option) io" where
  "predict_spec env text voice speed =
     (case generate_first env text voice speed False of
        (evs, Inl e) \<Rightarrow> (evs, Inl e)
      | (evs, Inr (chunk, ps)) \<Rightarrow> (evs, Inr chunk))"

section \<open>Stub collaborators for concrete runs\<close>

text \<open>
  A segmenter stub that yields one segment per character of the text, with a
  phoneme string of 1, 2, 3, ... characters for \<open>a\<close>, \<open>b\<close>, \<open>c\<close>, ...; a voice
  pack of three vectors; an accelerated backend that always raises a
  \<open>gr.exceptions.Error\<close>; a standard backend that fails on phoneme strings of
  length 3 and otherwise returns the reference vector twice.
\<close>

definition stub_segmenter :: "pystr \<Rightarrow> segment gen" where
  "stub_segmenter text = foldr (\<lambda>c g. Yield ([c], replicate (c - 96) c, None) g) text Stop"

definition stub_pipeline :: pipeline where
  "stub_pipeline =
     \<lparr> call = (\<lambda>text voice speed. stub_segmenter text),
       load_voice = (\<lambda>voice. Inr [[1], [2], [3]]) \<rparr>"

definition stub_gpu :: kmodel where
  "stub_gpu ps r speed = Inl (GrError (str_lit ''quota''))"

definition stub_cpu :: kmodel where
  "stub_cpu ps r speed = (if length ps = 3 then Inl (OtherError (str_lit ''fail'')) else Inr (r @ r))"

definition stub_env :: env where
  "stub_env =
     \<lparr> CHAR_LIMIT = Some 10,
       CUDA_AVAILABLE = True,
       models = (\<lambda>gpu. Some (if gpu then stub_gpu else stub_cpu)),
       pipelines = (\<lambda>c. if c = 97 then Some stub_pipeline else None) \<rparr>"

section \<open>Basic facts about traces and results\<close>

lemma io_bind_return [simp]: "io_bind (io_return x) f = f x"
  by (cases "f x") (simp add: io_return_def)

lemma io_bind_raise [simp]: "io_bind (io_raise e) f = io_raise e"
  by (simp add: io_raise_def)

lemma io_bind_lift_Inr [simp]: "io_bind (io_lift (Inr x)) f = f x"
  by (cases "f x") (simp add: io_lift_def)

lemma io_bind_lift_Inl [simp]: "io_bind (io_lift (Inl e)) f = io_raise e"
  by (simp add: io_lift_def io_raise_def)

lemma io_parts [simp]:
  "fst (io_return x) = []" "snd (io_return x) = Inr x"
  "fst (io_raise e) = []" "snd (io_raise e) = Inl e"
  "fst (io_tell ev) = [ev]" "snd (io_tell ev) = Inr ()"
  "fst (io_lift r) = []" "snd (io_lift r) = r"
  by (simp_all add: io_return_def io_raise_def io_tell_def io_lift_def)

lemma fst_io_bind:
  "fst (io_bind m f) = fst m @ (case snd m of Inl e \<Rightarrow> [] | Inr x \<Rightarrow> fst (f x))"
  by (cases m; cases "snd m") (auto split: prod.splits)

lemma snd_io_bind:
  "snd (io_bind m f) = (case snd m of Inl e \<Rightarrow> Inl e | Inr x \<Rightarrow> snd (f x))"
  by (cases m; cases "snd m") (auto split: prod.splits)

lemma io_bind_assoc: "io_bind (io_bind m f) g = io_bind m (\<lambda>x. io_bind (f x) g)"
proof (cases m)
  case (Pair evs r)
  show ?thesis
  proof (cases r)
    case (Inl e)
    with Pair show ?thesis by simp
  next
    case (Inr x)
    obtain evs1 r1 where f: "f x = (evs1, r1)" by (cases "f x")
    show ?thesis
    proof (cases r1)
      case (Inl e)
      with Pair Inr f show ?thesis by simp
    next
      case (Inr y)
      with Pair \<open>r = Inr x\<close> f show ?thesis by (simp split: prod.splits)
    qed
  qed
qed

lemma chunks_append [simp]: "chunks (xs @ ys) = chunks xs @ chunks ys"
  by (induction xs rule: chunks.induct) simp_all

lemma pulled_append [simp]: "pulled (xs @ ys) = pulled xs @ pulled ys"
  by (induction xs rule: pulled.induct) simp_all

lemma forwards_append [simp]: "forwards (xs @ ys) = forwards xs @ forwards ys"
  by (induction xs rule: forwards.induct) simp_all

lemma segmenter_inputs_append [simp]:
  "segmenter_inputs (xs @ ys) = segmenter_inputs xs @ segmenter_inputs ys"
  by (induction xs rule: segmenter_inputs.induct) simp_all

lemma notices_append [simp]: "notices (xs @ ys) = notices xs @ notices ys"
  by (induction xs rule: notices.induct) simp_all

section \<open>The streaming loop, one segment at a time\<close>

declare generate_all_loop.simps(3) [simp del]

lemma loop_Yield:
  "generate_all_loop env pack speed ug first (Yield seg rest) =
     io_bind (io_tell (Pull seg)) (\<lambda>_.
     io_bind (segment_io info_all env pack speed ug seg) (\<lambda>a.
     io_bind (io_tell (Emit (24000, a))) (\<lambda>_.
     io_bind (if first then io_tell (Emit silence) else io_return ()) (\<lambda>_.
     generate_all_loop env pack speed ug False rest))))"
  by (simp add: generate_all_loop.simps(3) segment_io_def io_bind_assoc Let_def silence_def)

lemma loop_Yield_fst:
  "fst (generate_all_loop env pack speed ug first (Yield seg rest)) =
     Pull seg # fst (segment_io info_all env pack speed ug seg) @
       (case snd (segment_io info_all env pack speed ug seg) of
          Inl e \<Rightarrow> []
        | Inr a \<Rightarrow> Emit (24000, a) # (if first then [Emit silence] else []) @
                   fst (generate_all_loop env pack speed ug False rest))"
  by (simp add: loop_Yield fst_io_bind split: sum.splits)

lemma loop_Yield_snd:
  "snd (generate_all_loop env pack speed ug first (Yield seg rest)) =
     (case snd (segment_io info_all env pack speed ug seg) of
        Inl e \<Rightarrow> Inl e
      | Inr a \<Rightarrow> snd (generate_all_loop env pack speed ug False rest))"
  by (simp add: loop_Yield snd_io_bind split: sum.splits)

lemma synthesize_no_chunks: "chunks (fst (synthesize info env ug ps r speed)) = []"
  by (auto simp: synthesize_def forward_gpu_def call_model_def io_raise_def fst_io_bind
      split: option.splits sum.splits prod.splits)

lemma synthesize_no_pulled: "pulled (fst (synthesize info env ug ps r speed)) = []"
  by (auto simp: synthesize_def forward_gpu_def call_model_def io_raise_def fst_io_bind
      split: option.splits sum.splits prod.splits)

lemma segment_io_no_chunks [simp]: "chunks (fst (segment_io info env pack speed ug seg)) = []"
  by (simp add: segment_io_def fst_io_bind synthesize_no_chunks split: sum.splits)

lemma segment_io_no_pulled [simp]: "pulled (fst (segment_io info env pack speed ug seg)) = []"
  by (simp add: segment_io_def fst_io_bind synthesize_no_pulled split: sum.splits)

lemma loop_all_succeed:
  "map (\<lambda>seg. snd (segment_io info_all env pack speed ug seg)) (items g) = map Inr auds \<Longrightarrow>
     chunks (fst (generate_all_loop env pack speed ug first g)) = emitted first auds \<and>
     pulled (fst (generate_all_loop env pack speed ug first g)) = items g \<and>
     snd (generate_all_loop env pack speed ug first g) =
       (case ending g of None \<Rightarrow> Inr () | Some e \<Rightarrow> Inl e)"
proof (induction g arbitrary: first auds)
  case Stop
  then show ?case by (simp add: emitted_def)
next
  case (Raise e)
  then show ?case by (simp add: emitted_def)
next
  case (Yield seg rest)
  from Yield.prems obtain a as where auds: "auds = a # as"
    and a: "snd (segment_io info_all env pack speed ug seg) = Inr a"
    and as: "map (\<lambda>seg. snd (segment_io info_all env pack speed ug seg)) (items rest) = map Inr as"
    by (cases auds) auto
  note IH = Yield.IH [OF as, of False]
  show ?case
    using a IH by (auto simp: loop_Yield_fst loop_Yield_snd auds emitted_def split: list.splits)
qed

lemma loop_failure:
  "items g = pre @ seg # post \<Longrightarrow>
   map (\<lambda>seg. snd (segment_io info_all env pack speed ug seg)) pre = map Inr auds \<Longrightarrow>
   snd (segment_io info_all env pack speed ug seg) = Inl e \<Longrightarrow>
     chunks (fst (generate_all_loop env pack speed ug first g)) = emitted first auds \<and>
     pulled (fst (generate_all_loop env pack speed ug first g)) = pre @ [seg] \<and>
     snd (generate_all_loop env pack speed ug first g) = Inl e"
proof (induction pre arbitrary: g first auds)
  case Nil
  then obtain rest where g: "g = Yield seg rest" by (cases g) auto
  from Nil show ?case by (simp add: g loop_Yield_fst loop_Yield_snd emitted_def)
next
  case (Cons s pre)
  then obtain rest where g: "g = Yield s rest" and rest: "items rest = pre @ seg # post"
    by (cases g) auto
  from Cons.prems obtain a as where auds: "auds = a # as"
    and a: "snd (segment_io info_all env pack speed ug s) = Inr a"
    and as: "map (\<lambda>seg. snd (segment_io info_all env pack speed ug seg)) pre = map Inr as"
    by (cases auds) auto
  note IH = Cons.IH [OF rest as Cons.prems(3), of False]
  show ?case
    using a IH by (auto simp: g loop_Yield_fst loop_Yield_snd auds emitted_def split: list.splits)
qed

text \<open>A run of \<open>generate_all\<close> whose voice resolves and loads is the loop after two events.\<close>

lemma generate_all_fst:
  "lookup_pipeline env voice = io_return p \<Longrightarrow> load_voice p voice = Inr pack \<Longrightarrow>
   fst (generate_all env text voice speed use_gpu) =
     LoadVoice voice # Run (normalize_text (CHAR_LIMIT env) text) voice (Some speed) #
     fst (generate_all_loop env pack speed (use_gpu \<and> CUDA_AVAILABLE env) True
            (call p (normalize_text (CHAR_LIMIT env) text) voice (Some speed)))"
  by (simp add: generate_all_def do_load_voice_def split_beta fst_io_bind Let_def)

lemma generate_all_snd:
  "lookup_pipeline env voice = io_return p \<Longrightarrow> load_voice p voice = Inr pack \<Longrightarrow>
   snd (generate_all env text voice speed use_gpu) =
     snd (generate_all_loop env pack speed (use_gpu \<and> CUDA_AVAILABLE env) True
            (call p (normalize_text (CHAR_LIMIT env) text) voice (Some speed)))"
  by (simp add: generate_all_def do_load_voice_def split_beta snd_io_bind Let_def)

section \<open>The shapes of a run\<close>

lemma lookup_cases:
  "(\<exists>e. lookup_pipeline env voice = io_raise e) \<or> (\<exists>p. lookup_pipeline env voice = io_return p)"
  by (auto simp: lookup_pipeline_def split: list.splits option.splits)

lemma generate_first_lookup_fail:
  "lookup_pipeline env voice = io_raise e \<Longrightarrow>
   generate_first env text voice speed use_gpu = ([], Inl e)"
  by (simp add: generate_first_def Let_def io_raise_def)

lemma generate_first_load_fail:
  "lookup_pipeline env voice = io_return p \<Longrightarrow> load_voice p voice = Inl e \<Longrightarrow>
   generate_first env text voice speed use_gpu = ([LoadVoice voice], Inl e)"
  by (simp add: generate_first_def Let_def do_load_voice_def)

lemma generate_first_Stop:
  "lookup_pipeline env voice = io_return p \<Longrightarrow> load_voice p voice = Inr pack \<Longrightarrow>
   call p (normalize_text (CHAR_LIMIT env) text) voice (Some speed) = Stop \<Longrightarrow>
   generate_first env text voice speed use_gpu =
     ([LoadVoice voice, Run (normalize_text (CHAR_LIMIT env) text) voice (Some speed)],
      Inr (None, []))"
  by (simp add: generate_first_def Let_def do_load_voice_def io_tell_def io_return_def)

lemma generate_first_Raise:
  "lookup_pipeline env voice = io_return p \<Longrightarrow> load_voice p voice = Inr pack \<Longrightarrow>
   call p (normalize_text (CHAR_LIMIT env) text) voice (Some speed) = Raise e \<Longrightarrow>
   generate_first env text voice speed use_gpu =
     ([LoadVoice voice, Run (normalize_text (CHAR_LIMIT env) text) voice (Some speed)], Inl e)"
  by (simp add: generate_first_def Let_def do_load_voice_def io_tell_def io_raise_def)

lemma generate_first_Yield:
  "lookup_pipeline env voice = io_return p \<Longrightarrow> load_voice p voice = Inr pack \<Longrightarrow>
   call p (normalize_text (CHAR_LIMIT env) text) voice (Some speed) = Yield seg rest \<Longrightarrow>
   generate_first env text voice speed use_gpu =
     io_bind ([LoadVoice voice, Run (normalize_text (CHAR_LIMIT env) text) voice (Some speed),
               Pull seg], Inr ())
       (\<lambda>_. io_bind (segment_io info_first env pack speed (use_gpu \<and> CUDA_AVAILABLE env) seg)
          (\<lambda>a. io_return (Some (24000, a), fst (snd seg))))"
  by (simp add: generate_first_def Let_def do_load_voice_def io_tell_def segment_io_def
      io_bind_assoc split_beta)

lemma generate_first_Yield_fst:
  "lookup_pipeline env voice = io_return p \<Longrightarrow> load_voice p voice = Inr pack \<Longrightarrow>
   call p (normalize_text (CHAR_LIMIT env) text) voice (Some speed) = Yield seg rest \<Longrightarrow>
   fst (generate_first env text voice speed use_gpu) =
     LoadVoice voice # Run (normalize_text (CHAR_LIMIT env) text) voice (Some speed) #
     Pull seg # fst (segment_io info_first env pack speed (use_gpu \<and> CUDA_AVAILABLE env) seg)"
  by (simp add: generate_first_Yield fst_io_bind split_beta split: sum.splits)

lemma generate_first_Yield_snd:
  "lookup_pipeline env voice = io_return p \<Longrightarrow> load_voice p voice = Inr pack \<Longrightarrow>
   call p (normalize_text (CHAR_LIMIT env) text) voice (Some speed) = Yield seg rest \<Longrightarrow>
   snd (generate_first env text voice speed use_gpu) =
     (case snd (segment_io info_first env pack speed (use_gpu \<and> CUDA_AVAILABLE env) seg) of
        Inl e \<Rightarrow> Inl e
      | Inr a \<Rightarrow> Inr (Some (24000, a), fst (snd seg)))"
  by (simp add: generate_first_Yield snd_io_bind split_beta split: sum.splits)

lemma generate_all_lookup_fail:
  "lookup_pipeline env voice = io_raise e \<Longrightarrow>
   generate_all env text voice speed use_gpu = ([], Inl e)"
  by (simp add: generate_all_def Let_def io_raise_def)

lemma generate_all_load_fail:
  "lookup_pipeline env voice = io_return p \<Longrightarrow> load_voice p voice = Inl e \<Longrightarrow>
   generate_all env text voice speed use_gpu = ([LoadVoice voice], Inl e)"
  by (simp add: generate_all_def Let_def do_load_voice_def)

text \<open>The shapes a run of the \<open>try\<close> block can take.\<close>

lemma synthesize_cases:
  "synthesize info env ug ps r speed \<in>
     {([], Inl KeyError)} \<union>
     {([Forward ug ps r speed], x) | x. True} \<union>
     {([Forward True ps r speed, GrWarning e, GrInfo info], Inl KeyError) | e. ug} \<union>
     {([Forward True ps r speed, GrWarning e, GrInfo info, Forward False ps r speed], x) | e x. ug}"
  by (auto simp: synthesize_def forward_gpu_def call_model_def io_raise_def
      split: option.splits sum.splits)

lemma synthesize_forwards:
  "set (forwards (fst (synthesize info env ug ps r speed))) \<subseteq>
     {(False, ps, r, speed)} \<union> (if ug then {(True, ps, r, speed)} else {})"
  using synthesize_cases [of info env ug ps r speed] by auto

lemma synthesize_notices:
  "\<not> ug \<Longrightarrow> notices (fst (synthesize info env ug ps r speed)) = []"
  using synthesize_cases [of info env ug ps r speed] by auto

lemma synthesize_no_inputs: "segmenter_inputs (fst (synthesize info env ug ps r speed)) = []"
  using synthesize_cases [of info env ug ps r speed] by auto

lemma segment_io_forwards:
  assumes "x \<in> set (forwards (fst (segment_io info env pack speed ug seg)))"
  shows "\<exists>gpu r. x = (gpu, fst (snd seg), r, speed) \<and> (gpu \<longrightarrow> ug) \<and>
       py_index pack (int (length (fst (snd seg))) - 1) = Inr r"
proof (cases "py_index pack (int (length (fst (snd seg))) - 1)")
  case (Inl e)
  with assms show ?thesis by (simp add: segment_io_def)
next
  case (Inr r)
  with assms have "x \<in> set (forwards (fst (synthesize info env ug (fst (snd seg)) r speed)))"
    by (simp add: segment_io_def)
  with synthesize_forwards [of info env ug "fst (snd seg)" r speed] Inr
  show ?thesis by (auto split: if_splits)
qed

lemma segment_io_notices:
  "\<not> ug \<Longrightarrow> notices (fst (segment_io info env pack speed ug seg)) = []"
  by (cases "py_index pack (int (length (fst (snd seg))) - 1)")
     (auto simp: segment_io_def io_raise_def synthesize_notices)

lemma segment_io_no_inputs [simp]:
  "segmenter_inputs (fst (segment_io info env pack speed ug seg)) = []"
  by (cases "py_index pack (int (length (fst (snd seg))) - 1)")
     (auto simp: segment_io_def io_raise_def synthesize_no_inputs)

lemma loop_forwards:
  "x \<in> set (forwards (fst (generate_all_loop env pack speed ug first g))) \<Longrightarrow>
     \<exists>gpu ps r. x = (gpu, ps, r, speed) \<and> (gpu \<longrightarrow> ug) \<and>
       py_index pack (int (length ps) - 1) = Inr r \<and>
       ps \<in> (\<lambda>seg. fst (snd seg)) ` set (pulled (fst (generate_all_loop env pack speed ug first g)))"
proof (induction g arbitrary: first)
  case Stop
  then show ?case by simp
next
  case (Raise e)
  then show ?case by simp
next
  case (Yield seg rest)
  show ?case
  proof (cases "x \<in> set (forwards (fst (segment_io info_all env pack speed ug seg)))")
    case True
    from segment_io_forwards [OF True] show ?thesis
      by (auto simp: loop_Yield_fst)
  next
    case False
    with Yield.prems obtain a where a: "snd (segment_io info_all env pack speed ug seg) = Inr a"
      and x: "x \<in> set (forwards (fst (generate_all_loop env pack speed ug False rest)))"
      by (auto simp: loop_Yield_fst split: sum.splits if_splits)
    from Yield.IH [OF x] show ?thesis
      by (auto simp: loop_Yield_fst a)
  qed
qed

lemma loop_notices:
  "\<not> ug \<Longrightarrow> notices (fst (generate_all_loop env pack speed ug first g)) = []"
  by (induction g arbitrary: first)
     (auto simp: loop_Yield_fst segment_io_notices split: sum.splits)

lemma loop_no_inputs [simp]:
  "segmenter_inputs (fst (generate_all_loop env pack speed ug first g)) = []"
  by (induction g arbitrary: first) (auto simp: loop_Yield_fst split: sum.splits)

lemma setup_cases:
  obtains (no_pipeline) e where "lookup_pipeline env voice = io_raise e"
  | (no_voice) p e where "lookup_pipeline env voice = io_return p" "load_voice p voice = Inl e"
  | (ready) p pack where "lookup_pipeline env voice = io_return p" "load_voice p voice = Inr pack"
proof -
  from lookup_cases [of env voice] show ?thesis
  proof (elim disjE exE)
    fix e assume "lookup_pipeline env voice = io_raise e"
    then show ?thesis by (rule no_pipeline)
  next
    fix p assume p: "lookup_pipeline env voice = io_return p"
    show ?thesis
    proof (cases "load_voice p voice")
      case (Inl e)
      with p show ?thesis by (rule no_voice)
    next
      case (Inr pack)
      with p show ?thesis by (rule ready)
    qed
  qed
qed

lemma generate_first_forwards:
  assumes "x \<in> set (forwards (fst (generate_first env text voice speed ug)))"
  shows "\<exists>gpu ps r. x = (gpu, ps, r, speed) \<and> (gpu \<longrightarrow> ug \<and> CUDA_AVAILABLE env)"
proof (cases env voice rule: setup_cases)
  case (no_pipeline e)
  with assms show ?thesis by (simp add: generate_first_lookup_fail)
next
  case (no_voice p e)
  with assms show ?thesis by (simp add: generate_first_load_fail)
next
  case (ready p pack)
  show ?thesis
  proof (cases "call p (normalize_text (CHAR_LIMIT env) text) voice (Some speed)")
    case Stop
    with assms ready show ?thesis by (simp add: generate_first_Stop)
  next
    case (Raise e)
    with assms ready show ?thesis by (simp add: generate_first_Raise)
  next
    case (Yield seg rest)
    with assms ready
    have "x \<in> set (forwards (fst (segment_io info_first env pack speed
             (ug \<and> CUDA_AVAILABLE env) seg)))"
      by (simp add: generate_first_Yield_fst)
    from segment_io_forwards [OF this] show ?thesis by blast
  qed
qed

lemma generate_first_notices:
  assumes "\<not> (ug \<and> CUDA_AVAILABLE env)"
  shows "notices (fst (generate_first env text voice speed ug)) = []"
proof (cases env voice rule: setup_cases)
  case (no_pipeline e)
  then show ?thesis by (simp add: generate_first_lookup_fail)
next
  case (no_voice p e)
  then show ?thesis by (simp add: generate_first_load_fail)
next
  case (ready p pack)
  show ?thesis
  proof (cases "call p (normalize_text (CHAR_LIMIT env) text) voice (Some speed)")
    case Stop
    with ready show ?thesis by (simp add: generate_first_Stop)
  next
    case (Raise e)
    with ready show ?thesis by (simp add: generate_first_Raise)
  next
    case (Yield seg rest)
    with ready assms show ?thesis
      by (simp add: generate_first_Yield_fst segment_io_notices)
  qed
qed

lemma generate_all_forwards:
  assumes "x \<in> set (forwards (fst (generate_all env text voice speed ug)))"
  shows "\<exists>gpu ps r. x = (gpu, ps, r, speed) \<and> (gpu \<longrightarrow> ug \<and> CUDA_AVAILABLE env)"
proof (cases env voice rule: setup_cases)
  case (no_pipeline e)
  with assms show ?thesis by (simp add: generate_all_lookup_fail)
next
  case (no_voice p e)
  with assms show ?thesis by (simp add: generate_all_load_fail)
next
  case (ready p pack)
  with assms have "x \<in> set (forwards (fst (generate_all_loop env pack speed
      (ug \<and> CUDA_AVAILABLE env) True
      (call p (normalize_text (CHAR_LIMIT env) text) voice (Some speed)))))"
    by (simp add: generate_all_fst)
  from loop_forwards [OF this] show ?thesis by blast
qed

lemma generate_all_notices:
  assumes "\<not> (ug \<and> CUDA_AVAILABLE env)"
  shows "notices (fst (generate_all env text voice speed ug)) = []"
proof (cases env voice rule: setup_cases)
  case (no_pipeline e)
  then show ?thesis by (simp add: generate_all_lookup_fail)
next
  case (no_voice p e)
  then show ?thesis by (simp add: generate_all_load_fail)
next
  case (ready p pack)
  with assms show ?thesis by (simp add: generate_all_fst loop_notices)
qed

section \<open>Python indexing and stripping\<close>

lemma py_index_in_range:
  "py_index xs (int n - 1) = Inr r \<Longrightarrow> 0 < n \<Longrightarrow> n \<le> length xs \<and> r = xs ! (n - 1)"
  by (auto simp: py_index_def nat_diff_distrib' split: if_splits)

lemma rev_drop_take:
  "d = rev (dropWhile P (rev d)) @ rev (takeWhile P (rev d))"
proof -
  have "rev (takeWhile P (rev d) @ dropWhile P (rev d)) = d"
    by (simp only: takeWhile_dropWhile_id rev_rev_ident)
  then show ?thesis by (simp only: rev_append)
qed

lemma py_strip_suffix:
  "dropWhile py_isspace s =
     py_strip s @ rev (takeWhile py_isspace (rev (dropWhile py_isspace s)))"
  unfolding py_strip_def by (rule rev_drop_take)

lemma py_strip_parts:
  "\<exists>l t. s = l @ py_strip s @ t \<and> (\<forall>c\<in>set l. py_isspace c) \<and> (\<forall>c\<in>set t. py_isspace c)"
proof -
  let ?l = "takeWhile py_isspace s"
  let ?t = "rev (takeWhile py_isspace (rev (dropWhile py_isspace s)))"
  have "s = ?l @ dropWhile py_isspace s" by simp
  then have "s = ?l @ py_strip s @ ?t"
    using py_strip_suffix [of s] by simp
  moreover have "\<forall>c\<in>set ?l. py_isspace c"
    by (auto dest: set_takeWhileD)
  moreover have "\<forall>c\<in>set ?t. py_isspace c"
    by (auto dest: set_takeWhileD)
  ultimately show ?thesis by blast
qed

lemma py_strip_ends:
  assumes ne: "py_strip s \<noteq> []"
  shows "\<not> py_isspace (hd (py_strip s)) \<and> \<not> py_isspace (last (py_strip s))"
proof -
  let ?d = "dropWhile py_isspace s"
  let ?e = "dropWhile py_isspace (rev ?d)"
  have e: "?e \<noteq> []" using ne by (simp add: py_strip_def)
  then have "\<not> py_isspace (hd ?e)" by (rule hd_dropWhile)
  moreover have "last (py_strip s) = hd ?e" using e by (simp add: py_strip_def last_rev)
  ultimately have l: "\<not> py_isspace (last (py_strip s))" by simp
  have "?d \<noteq> []" using e by (cases "?d") simp_all
  then have "\<not> py_isspace (hd ?d)" by (rule hd_dropWhile)
  moreover have "hd ?d = hd (py_strip s)"
    by (subst py_strip_suffix) (simp add: ne)
  ultimately show ?thesis using l by simp
qed

section \<open>The module as built\<close>

lemma module_env_fields:
  "CUDA_AVAILABLE (module_env d m P) = False"
  "models (module_env d m P) True = None"
  "models (module_env d m P) False = Some m"
  "CHAR_LIMIT (module_env d m P) = (if d then None else Some 500000)"
  "pipelines (module_env d m P) 97 = Some (P 97)"
  "pipelines (module_env d m P) 98 = Some (P 98)"
  "c \<noteq> 97 \<Longrightarrow> c \<noteq> 98 \<Longrightarrow> pipelines (module_env d m P) c = None"
  by (simp_all add: module_env_def str_lit_def)

section \<open>Concrete runs of the stubs\<close>

lemma stub_lookup: "lookup_pipeline stub_env (str_lit ''af'') = io_return stub_pipeline"
  by (simp add: lookup_pipeline_def stub_env_def str_lit_def)

lemma stub_load: "load_voice stub_pipeline v = Inr [[1], [2], [3]]"
  by (simp add: stub_pipeline_def)

lemma stub_call: "call stub_pipeline t v sp = stub_segmenter t"
  by (simp add: stub_pipeline_def)

lemma stub_segmenter_simps:
  "stub_segmenter [] = Stop"
  "stub_segmenter (97 # cs) = Yield ([97], [97], None) (stub_segmenter cs)"
  "stub_segmenter (98 # cs) = Yield ([98], [98, 98], None) (stub_segmenter cs)"
  "stub_segmenter (99 # cs) = Yield ([99], [99, 99, 99], None) (stub_segmenter cs)"
  by (simp_all add: stub_segmenter_def numeral_2_eq_2 numeral_3_eq_3)

lemma stub_normalize:
  "normalize_text (CHAR_LIMIT stub_env) (str_lit ''ab'') = [97, 98]"
  "normalize_text (CHAR_LIMIT stub_env) (str_lit ''abc'') = [97, 98, 99]"
  "normalize_text (CHAR_LIMIT stub_env) (str_lit ''  '') = []"
  by (simp_all add: normalize_text_def stub_env_def str_lit_def py_slice_to_def py_strip_def
      py_isspace_def)

lemma stub_segment_cpu:
  "segment_io info stub_env [[1], [2], [3]] 1 False ([97], [97], None) =
     ([Forward False [97] [1] 1], Inr [1, 1])"
  "segment_io info stub_env [[1], [2], [3]] 1 False ([98], [98, 98], None) =
     ([Forward False [98, 98] [2] 1], Inr [2, 2])"
  by (simp_all add: segment_io_def py_index_def synthesize_def call_model_def stub_env_def
      stub_cpu_def)

lemma stub_segment_gpu:
  "segment_io info stub_env [[1], [2], [3]] 1 True ([97], [97], None) =
     ([Forward True [97] [1] 1, GrWarning (GrError (str_lit ''quota'')), GrInfo info,
       Forward False [97] [1] 1], Inr [1, 1])"
  "segment_io info stub_env [[1], [2], [3]] 1 True ([98], [98, 98], None) =
     ([Forward True [98, 98] [2] 1, GrWarning (GrError (str_lit ''quota'')), GrInfo info,
       Forward False [98, 98] [2] 1], Inr [2, 2])"
  "segment_io info stub_env [[1], [2], [3]] 1 True ([99], [99, 99, 99], None) =
     ([Forward True [99, 99, 99] [3] 1, GrWarning (GrError (str_lit ''quota'')), GrInfo info,
       Forward False [99, 99, 99] [3] 1], Inl (OtherError (str_lit ''fail'')))"
  by (simp_all add: segment_io_def py_index_def synthesize_def call_model_def forward_gpu_def
      stub_env_def stub_cpu_def stub_gpu_def)

lemma stub_cuda: "CUDA_AVAILABLE stub_env"
  by (simp add: stub_env_def)

lemma stub_segmenter_space:
  "stub_segmenter (32 # cs) = Yield ([32], [], None) (stub_segmenter cs)"
  by (simp add: stub_segmenter_def)

lemma stub_models:
  "models stub_env True = Some stub_gpu" "models stub_env False = Some stub_cpu"
  by (simp_all add: stub_env_def)

lemma stub_normalize_more:
  "normalize_text (CHAR_LIMIT stub_env) (str_lit ''c'') = [99]"
  "normalize_text (CHAR_LIMIT stub_env) (str_lit ''  b'') = [98]"
  "normalize_text (CHAR_LIMIT stub_env) (str_lit ''b'') = [98]"
  by (simp_all add: normalize_text_def stub_env_def str_lit_def py_slice_to_def py_strip_def
      py_isspace_def)

lemma stub_limit: "CHAR_LIMIT stub_env = Some 10"
  by (simp add: stub_env_def)

section \<open>Streaming: how many chunks, and where the silence marker goes\<close>

text \<open>
  Claim C1. Take a call of \<open>generate_all\<close> whose voice resolves and loads, whose
  segmenter yields the segments \<open>items g\<close> and then ends, and in which the
  synthesis of every segment succeeds, with audio buffers \<open>auds\<close>. The call
  ends without an exception, it pulls exactly those segments, and the chunks it
  yields are: nothing when there is no segment; otherwise the first segment's
  audio at 24000 Hz, then the silence marker \<open>(24000, [0])\<close>, then the audio of
  the remaining segments in order. So k segments give k + 1 chunks for k > 0
  and 0 chunks for k = 0.
\<close>

theorem generate_all_chunk_count:
  assumes "lookup_pipeline env voice = io_return p"
    and "load_voice p voice = Inr pack"
    and "g = call p (normalize_text (CHAR_LIMIT env) text) voice (Some speed)"
    and "ending g = None"
    and "map (\<lambda>seg. snd (segment_io info_all env pack speed (use_gpu \<and> CUDA_AVAILABLE env) seg))
           (items g) = map Inr auds"
  shows "snd (generate_all env text voice speed use_gpu) = Inr () \<and>
         chunks (fst (generate_all env text voice speed use_gpu)) =
           (case auds of [] \<Rightarrow> [] | a # as \<Rightarrow> (24000, a) # silence # map (Pair 24000) as) \<and>
         length (chunks (fst (generate_all env text voice speed use_gpu))) =
           (if length (items g) = 0 then 0 else length (items g) + 1) \<and>
         pulled (fst (generate_all env text voice speed use_gpu)) = items g"
proof -
  let ?ug = "use_gpu \<and> CUDA_AVAILABLE env"
  have len: "length (items g) = length auds"
    using arg_cong [OF assms(5), of length] by simp
  from loop_all_succeed [OF assms(5), of True]
  have c: "chunks (fst (generate_all_loop env pack speed ?ug True g)) = emitted True auds"
    and q: "pulled (fst (generate_all_loop env pack speed ?ug True g)) = items g"
    and s: "snd (generate_all_loop env pack speed ?ug True g) = Inr ()"
    using assms(4) by simp_all
  have f: "fst (generate_all env text voice speed use_gpu) =
      LoadVoice voice # Run (normalize_text (CHAR_LIMIT env) text) voice (Some speed) #
      fst (generate_all_loop env pack speed ?ug True g)"
    unfolding assms(3) by (rule generate_all_fst [OF assms(1,2)])
  have r: "snd (generate_all env text voice speed use_gpu) =
      snd (generate_all_loop env pack speed ?ug True g)"
    unfolding assms(3) by (rule generate_all_snd [OF assms(1,2)])
  show ?thesis
    using c q s len by (simp add: f r emitted_def split: list.splits)
qed

theorem generate_all_chunk_count_witness:
  "snd (generate_all stub_env (str_lit ''ab'') (str_lit ''af'') 1 False) = Inr () \<and>
   chunks (fst (generate_all stub_env (str_lit ''ab'') (str_lit ''af'') 1 False)) =
     [(24000, [1, 1]), silence, (24000, [2, 2])]"
proof -
  let ?g = "stub_segmenter [97, 98]"
  have g: "?g = call stub_pipeline (normalize_text (CHAR_LIMIT stub_env) (str_lit ''ab''))
      (str_lit ''af'') (Some 1)"
    by (simp add: stub_call stub_normalize)
  have e: "ending ?g = None"
    by (simp add: stub_segmenter_simps)
  have a: "map (\<lambda>seg. snd (segment_io info_all stub_env [[1], [2], [3]] 1
        (False \<and> CUDA_AVAILABLE stub_env) seg)) (items ?g) = map Inr [[1, 1], [2, 2]]"
    by (simp add: stub_segmenter_simps stub_segment_cpu)
  from generate_all_chunk_count [OF stub_lookup stub_load g e a]
  show ?thesis by simp
qed

section \<open>Fallback from the accelerated backend\<close>

text \<open>
  Claim C2. Let the accelerated backend be requested and available, and let it
  raise a \<open>gr.exceptions.Error\<close> \<open>e\<close> on a segment with phonemes \<open>ps\<close> and
  reference vector \<open>r\<close>. Then the \<open>try\<close> block makes exactly two backend calls,
  the accelerated one and then the standard one, with a warning and a note in
  between, and its outcome is the outcome of the standard call: its audio, or
  its exception unchanged. \<open>generate_first\<close> on such a first segment does just
  that and returns the standard backend's chunk or raises its exception; in
  \<open>generate_all\<close> the loop at such a segment makes these two calls and goes on
  to the rest of the stream only if the standard call succeeded. When the
  standard backend is called directly, it is called once and its failure is
  raised (a \<open>gr.exceptions.Error\<close> wrapped in a new \<open>gr.Error\<close>).
\<close>

theorem accelerated_failure_falls_back_once:
  assumes "use_gpu" and "CUDA_AVAILABLE env"
    and "models env True = Some mg" and "models env False = Some mc"
    and "lookup_pipeline env voice = io_return p" and "load_voice p voice = Inr pack"
    and "call p (normalize_text (CHAR_LIMIT env) text) voice (Some speed) = Yield (gs, ps, x) rest"
    and "py_index pack (int (length ps) - 1) = Inr r"
    and "mg ps r speed = Inl e" and "is_gr_error e"
  shows "synthesize info env (use_gpu \<and> CUDA_AVAILABLE env) ps r speed =
           ([Forward True ps r speed, GrWarning e, GrInfo info, Forward False ps r speed],
            mc ps r speed) \<and>
         generate_first env text voice speed use_gpu =
           ([LoadVoice voice, Run (normalize_text (CHAR_LIMIT env) text) voice (Some speed),
             Pull (gs, ps, x),
             Forward True ps r speed, GrWarning e, GrInfo info_first, Forward False ps r speed],
            case mc ps r speed of Inl e' \<Rightarrow> Inl e' | Inr a \<Rightarrow> Inr (Some (24000, a), ps)) \<and>
         forwards (fst (generate_all_loop env pack speed (use_gpu \<and> CUDA_AVAILABLE env) first
                          (Yield (gs, ps, x) rest'))) =
           (True, ps, r, speed) # (False, ps, r, speed) #
           (case mc ps r speed of
              Inl e' \<Rightarrow> []
            | Inr a \<Rightarrow> forwards (fst (generate_all_loop env pack speed
                                         (use_gpu \<and> CUDA_AVAILABLE env) False rest'))) \<and>
         snd (generate_all_loop env pack speed (use_gpu \<and> CUDA_AVAILABLE env) first
                (Yield (gs, ps, x) rest')) =
           (case mc ps r speed of
              Inl e' \<Rightarrow> Inl e'
            | Inr a \<Rightarrow> snd (generate_all_loop env pack speed
                                (use_gpu \<and> CUDA_AVAILABLE env) False rest')) \<and>
         synthesize info env False ps r speed =
           ([Forward False ps r speed],
            case mc ps r speed of
              Inl e' \<Rightarrow> Inl (if is_gr_error e' then GrErrorOf e' else e')
            | Inr a \<Rightarrow> Inr a)"
proof -
  have syn: "\<And>info. synthesize info env True ps r speed =
      ([Forward True ps r speed, GrWarning e, GrInfo info, Forward False ps r speed],
       mc ps r speed)"
    using assms(3,4,9,10)
    by (simp add: synthesize_def forward_gpu_def call_model_def)
  have seg: "\<And>info. segment_io info env pack speed True (gs, ps, x) =
      ([Forward True ps r speed, GrWarning e, GrInfo info, Forward False ps r speed],
       mc ps r speed)"
    using assms(8) by (simp add: segment_io_def syn)
  have ug: "(use_gpu \<and> CUDA_AVAILABLE env) = True"
    using assms(1,2) by simp
  have direct: "synthesize info env False ps r speed =
      ([Forward False ps r speed],
       case mc ps r speed of
         Inl e' \<Rightarrow> Inl (if is_gr_error e' then GrErrorOf e' else e')
       | Inr a \<Rightarrow> Inr a)"
    using assms(4) by (simp add: synthesize_def call_model_def split: sum.splits)
  have gf: "generate_first env text voice speed use_gpu =
      ([LoadVoice voice, Run (normalize_text (CHAR_LIMIT env) text) voice (Some speed),
        Pull (gs, ps, x),
        Forward True ps r speed, GrWarning e, GrInfo info_first, Forward False ps r speed],
       case mc ps r speed of Inl e' \<Rightarrow> Inl e' | Inr a \<Rightarrow> Inr (Some (24000, a), ps))"
    unfolding generate_first_Yield [OF assms(5,6,7)] ug seg
    by (simp add: io_return_def split: sum.splits)
  show ?thesis
    unfolding ug
    by (simp add: syn direct gf [unfolded ug] loop_Yield_fst loop_Yield_snd seg split: sum.splits)
qed

theorem accelerated_failure_falls_back_once_witness:
  "generate_first stub_env (str_lit ''c'') (str_lit ''af'') 1 True =
     ([LoadVoice (str_lit ''af''), Run [99] (str_lit ''af'') (Some 1),
       Pull ([99], [99, 99, 99], None),
       Forward True [99, 99, 99] [3] 1, GrWarning (GrError (str_lit ''quota'')),
       GrInfo info_first, Forward False [99, 99, 99] [3] 1],
      Inl (OtherError (str_lit ''fail'')))"
proof -
  have c: "call stub_pipeline (normalize_text (CHAR_LIMIT stub_env) (str_lit ''c''))
      (str_lit ''af'') (Some 1) = Yield ([99], [99, 99, 99], None) Stop"
    by (simp add: stub_call stub_normalize_more stub_segmenter_simps)
  have i: "py_index [[1], [2], [3::real]] (int (length [99, 99, 99 :: nat]) - 1) = Inr [3]"
    by (simp add: py_index_def)
  have g: "stub_gpu [99, 99, 99] [3] 1 = Inl (GrError (str_lit ''quota''))"
    by (simp add: stub_gpu_def)
  have e: "is_gr_error (GrError (str_lit ''quota''))"
    by simp
  from accelerated_failure_falls_back_once
    [OF TrueI stub_cuda stub_models stub_lookup stub_load c i g e]
  show ?thesis by (simp add: stub_normalize_more stub_cpu_def)
qed

section \<open>Streaming: a fatal failure ends the stream\<close>

text \<open>
  Claim C3. Take a call of \<open>generate_all\<close> whose segmenter yields
  \<open>pre @ seg # post\<close>, in which every segment of \<open>pre\<close> is synthesised (audio
  \<open>auds\<close>) and the work on \<open>seg\<close> raises \<open>e\<close>. The call ends by raising \<open>e\<close>; the
  chunks it has yielded are exactly those of \<open>pre\<close> (with the silence marker
  after the first one when \<open>pre\<close> is not empty), so none for \<open>seg\<close> or a later
  segment; and no segment after \<open>seg\<close> is pulled from the segmenter.
\<close>

theorem generate_all_fatal_stops:
  assumes "lookup_pipeline env voice = io_return p"
    and "load_voice p voice = Inr pack"
    and "items (call p (normalize_text (CHAR_LIMIT env) text) voice (Some speed)) =
           pre @ seg # post"
    and "map (\<lambda>s. snd (segment_io info_all env pack speed (use_gpu \<and> CUDA_AVAILABLE env) s)) pre =
           map Inr auds"
    and "snd (segment_io info_all env pack speed (use_gpu \<and> CUDA_AVAILABLE env) seg) = Inl e"
  shows "snd (generate_all env text voice speed use_gpu) = Inl e \<and>
         chunks (fst (generate_all env text voice speed use_gpu)) =
           (case auds of [] \<Rightarrow> [] | a # as \<Rightarrow> (24000, a) # silence # map (Pair 24000) as) \<and>
         length (chunks (fst (generate_all env text voice speed use_gpu))) =
           (if pre = [] then 0 else length pre + 1) \<and>
         pulled (fst (generate_all env text voice speed use_gpu)) = pre @ [seg]"
proof -
  have len: "length pre = length auds"
    using arg_cong [OF assms(4), of length] by simp
  from loop_failure [OF assms(3,4,5), of True] len
  show ?thesis
    by (auto simp: generate_all_fst [OF assms(1,2)] generate_all_snd [OF assms(1,2)] emitted_def
        split: list.splits)
qed

theorem generate_all_fatal_stops_witness:
  "snd (generate_all stub_env (str_lit ''abc'') (str_lit ''af'') 1 True) =
     Inl (OtherError (str_lit ''fail'')) \<and>
   chunks (fst (generate_all stub_env (str_lit ''abc'') (str_lit ''af'') 1 True)) =
     [(24000, [1, 1]), silence, (24000, [2, 2])] \<and>
   pulled (fst (generate_all stub_env (str_lit ''abc'') (str_lit ''af'') 1 True)) =
     [([97], [97], None), ([98], [98, 98], None), ([99], [99, 99, 99], None)]"
proof -
  have i: "items (call stub_pipeline (normalize_text (CHAR_LIMIT stub_env) (str_lit ''abc''))
      (str_lit ''af'') (Some 1)) =
      [([97], [97], None), ([98], [98, 98], None)] @ ([99], [99, 99, 99], None) # []"
    by (simp add: stub_call stub_normalize stub_segmenter_simps)
  have a: "map (\<lambda>s. snd (segment_io info_all stub_env [[1], [2], [3]] 1
        (True \<and> CUDA_AVAILABLE stub_env) s)) [([97], [97], None), ([98], [98, 98], None)] =
      map Inr [[1, 1], [2, 2]]"
    by (simp add: stub_cuda stub_segment_gpu)
  have f: "snd (segment_io info_all stub_env [[1], [2], [3]] 1
        (True \<and> CUDA_AVAILABLE stub_env) ([99], [99, 99, 99], None)) =
      Inl (OtherError (str_lit ''fail''))"
    by (simp add: stub_cuda stub_segment_gpu)
  from generate_all_fatal_stops [OF stub_lookup stub_load i a f]
  show ?thesis by simp
qed

section \<open>Normalisation of the text\<close>

text \<open>
  Claim C4. In a call of \<open>generate_first\<close> or \<open>generate_all\<close> whose voice resolves
  and loads, the segmenter is called exactly once, on the normalised text.
  Without a character limit the normalised text is the text itself. With a
  limit \<open>n\<close> (a count, so not negative) it is the first \<open>n\<close> characters of the
  stripped text, where stripping removes a run of whitespace at each end and
  leaves no whitespace at either end. With limit 10 the text
  \<open>abcdefghijklmnop\<close> becomes \<open>abcdefghij\<close>.
\<close>

theorem text_normalization:
  assumes "lookup_pipeline env voice = io_return p" and "load_voice p voice = Inr pack"
  shows "segmenter_inputs (fst (generate_first env text voice speed use_gpu)) =
           [(normalize_text (CHAR_LIMIT env) text, voice, Some speed)] \<and>
         segmenter_inputs (fst (generate_all env text voice speed use_gpu)) =
           [(normalize_text (CHAR_LIMIT env) text, voice, Some speed)] \<and>
         (CHAR_LIMIT env = None \<longrightarrow> normalize_text (CHAR_LIMIT env) text = text) \<and>
         (\<forall>n. CHAR_LIMIT env = Some n \<and> 0 \<le> n \<longrightarrow>
            normalize_text (CHAR_LIMIT env) text = take (nat n) (py_strip text)) \<and>
         (\<exists>l t. text = l @ py_strip text @ t \<and>
            (\<forall>c\<in>set l. py_isspace c) \<and> (\<forall>c\<in>set t. py_isspace c)) \<and>
         (py_strip text \<noteq> [] \<longrightarrow>
            \<not> py_isspace (hd (py_strip text)) \<and> \<not> py_isspace (last (py_strip text))) \<and>
         normalize_text (Some 10) (str_lit ''abcdefghijklmnop'') = str_lit ''abcdefghij''"
proof -
  let ?t = "normalize_text (CHAR_LIMIT env) text"
  have gf: "segmenter_inputs (fst (generate_first env text voice speed use_gpu)) =
      [(?t, voice, Some speed)]"
  proof (cases "call p ?t voice (Some speed)")
    case Stop
    with assms show ?thesis by (simp add: generate_first_Stop)
  next
    case (Raise e)
    with assms show ?thesis by (simp add: generate_first_Raise)
  next
    case (Yield seg rest)
    with assms show ?thesis by (simp add: generate_first_Yield_fst)
  qed
  have ga: "segmenter_inputs (fst (generate_all env text voice speed use_gpu)) =
      [(?t, voice, Some speed)]"
    using assms by (simp add: generate_all_fst)
  have example: "normalize_text (Some 10) (str_lit ''abcdefghijklmnop'') = str_lit ''abcdefghij''"
    by (simp add: normalize_text_def str_lit_def py_slice_to_def py_strip_def py_isspace_def)
  have limited: "\<forall>n. CHAR_LIMIT env = Some n \<and> 0 \<le> n \<longrightarrow> ?t = take (nat n) (py_strip text)"
    by (simp add: normalize_text_def py_slice_to_def)
  have unlimited: "CHAR_LIMIT env = None \<longrightarrow> ?t = text"
    by (simp add: normalize_text_def)
  from gf ga unlimited limited py_strip_parts [of "text"] py_strip_ends [of "text"] example
  show ?thesis by blast
qed

theorem text_normalization_witness:
  "segmenter_inputs (fst (generate_first stub_env (str_lit ''  abcabcabcabcabc '')
      (str_lit ''af'') 1 False)) = [(str_lit ''abcabcabca'', str_lit ''af'', Some 1)] \<and>
   segmenter_inputs (fst (generate_all stub_env (str_lit ''  abcabcabcabcabc '')
      (str_lit ''af'') 1 False)) = [(str_lit ''abcabcabca'', str_lit ''af'', Some 1)]"
proof -
  have s: "take (nat 10) (py_strip (str_lit ''  abcabcabcabcabc '')) = str_lit ''abcabcabca''"
    by (simp add: str_lit_def py_strip_def py_isspace_def)
  from text_normalization [OF stub_lookup stub_load, of "str_lit ''  abcabcabcabcabc ''" 1 False]
    stub_limit s
  show ?thesis by simp
qed

section \<open>No segment\<close>

text \<open>
  Claim C5. When the voice resolves and loads and the segmenter yields no
  segment for the normalised text, \<open>generate_first\<close> returns \<open>(None, '')\<close>: it
  raises nothing and calls no backend.
\<close>

theorem generate_first_no_segments:
  assumes "lookup_pipeline env voice = io_return p" and "load_voice p voice = Inr pack"
    and "call p (normalize_text (CHAR_LIMIT env) text) voice (Some speed) = Stop"
  shows "snd (generate_first env text voice speed use_gpu) = Inr (None, []) \<and>
         fst (generate_first env text voice speed use_gpu) =
           [LoadVoice voice, Run (normalize_text (CHAR_LIMIT env) text) voice (Some speed)]"
  using assms by (simp add: generate_first_Stop)

theorem generate_first_no_segments_witness:
  "snd (generate_first stub_env (str_lit ''  '') (str_lit ''af'') 1 True) = Inr (None, [])"
proof -
  have "call stub_pipeline (normalize_text (CHAR_LIMIT stub_env) (str_lit ''  ''))
      (str_lit ''af'') (Some 1) = Stop"
    by (simp add: stub_call stub_normalize stub_segmenter_simps)
  from generate_first_no_segments [OF stub_lookup stub_load this]
  show ?thesis by simp
qed

section \<open>Only the first segment\<close>

text \<open>
  Claim C6. When the voice resolves and loads and the segmenter yields a first
  segment \<open>seg\<close>, \<open>generate_first\<close> pulls that segment and no other, every
  backend call it makes is for the phonemes of \<open>seg\<close>, and its trace and result
  are those of the work on \<open>seg\<close> alone, whatever the rest of the sequence is:
  the pair of the chunk \<open>(24000, audio)\<close> and the phoneme string of \<open>seg\<close> when
  synthesis succeeds, the exception otherwise.
\<close>

theorem generate_first_only_first_segment:
  assumes "lookup_pipeline env voice = io_return p" and "load_voice p voice = Inr pack"
    and "call p (normalize_text (CHAR_LIMIT env) text) voice (Some speed) = Yield seg rest"
  shows "pulled (fst (generate_first env text voice speed use_gpu)) = [seg] \<and>
         (\<forall>x\<in>set (forwards (fst (generate_first env text voice speed use_gpu))).
            fst (snd x) = fst (snd seg)) \<and>
         fst (generate_first env text voice speed use_gpu) =
           LoadVoice voice # Run (normalize_text (CHAR_LIMIT env) text) voice (Some speed) #
           Pull seg #
           fst (segment_io info_first env pack speed (use_gpu \<and> CUDA_AVAILABLE env) seg) \<and>
         snd (generate_first env text voice speed use_gpu) =
           (case snd (segment_io info_first env pack speed (use_gpu \<and> CUDA_AVAILABLE env) seg) of
              Inl e \<Rightarrow> Inl e
            | Inr a \<Rightarrow> Inr (Some (24000, a), fst (snd seg)))"
proof -
  note f = generate_first_Yield_fst [OF assms, of use_gpu]
  note s = generate_first_Yield_snd [OF assms, of use_gpu]
  have "\<forall>x\<in>set (forwards (fst (generate_first env text voice speed use_gpu))).
      fst (snd x) = fst (snd seg)"
  proof
    fix x assume "x \<in> set (forwards (fst (generate_first env text voice speed use_gpu)))"
    then have "x \<in> set (forwards (fst (segment_io info_first env pack speed
        (use_gpu \<and> CUDA_AVAILABLE env) seg)))"
      by (simp add: f)
    from segment_io_forwards [OF this] show "fst (snd x) = fst (snd seg)" by auto
  qed
  then show ?thesis by (simp add: f s)
qed

theorem generate_first_only_first_segment_witness:
  "pulled (fst (generate_first stub_env (str_lit ''abc'') (str_lit ''af'') 1 False)) =
     [([97], [97], None)] \<and>
   forwards (fst (generate_first stub_env (str_lit ''abc'') (str_lit ''af'') 1 False)) =
     [(False, [97], [1], 1)] \<and>
   snd (generate_first stub_env (str_lit ''abc'') (str_lit ''af'') 1 False) =
     Inr (Some (24000, [1, 1]), [97])"
proof -
  have c: "call stub_pipeline (normalize_text (CHAR_LIMIT stub_env) (str_lit ''abc''))
      (str_lit ''af'') (Some 1) = Yield ([97], [97], None) (stub_segmenter [98, 99])"
    by (simp add: stub_call stub_normalize stub_segmenter_simps)
  from generate_first_only_first_segment [OF stub_lookup stub_load c, of False]
  show ?thesis by (simp add: stub_segment_cpu)
qed

section \<open>The reference vector\<close>

text \<open>
  Claim C7. In a call of \<open>generate_first\<close> or \<open>generate_all\<close> whose voice loads the
  pack \<open>pack\<close>, every backend call is made on the phonemes \<open>ps\<close> of a segment
  pulled in that call and with the reference vector \<open>pack[len(ps) - 1]\<close>, in
  Python's indexing; for a phoneme string that is not empty this is the
  element of the pack at position \<open>length ps - 1\<close>.
\<close>

theorem reference_vector_by_phoneme_length:
  assumes "lookup_pipeline env voice = io_return p" and "load_voice p voice = Inr pack"
  shows "(\<forall>(gpu, ps, r, sp) \<in> set (forwards (fst (generate_first env text voice speed use_gpu))).
            py_index pack (int (length ps) - 1) = Inr r \<and>
            (0 < length ps \<longrightarrow> length ps \<le> length pack \<and> r = pack ! (length ps - 1)) \<and>
            ps \<in> set (map (\<lambda>seg. fst (snd seg))
                        (pulled (fst (generate_first env text voice speed use_gpu))))) \<and>
         (\<forall>(gpu, ps, r, sp) \<in> set (forwards (fst (generate_all env text voice speed use_gpu))).
            py_index pack (int (length ps) - 1) = Inr r \<and>
            (0 < length ps \<longrightarrow> length ps \<le> length pack \<and> r = pack ! (length ps - 1)) \<and>
            ps \<in> set (map (\<lambda>seg. fst (snd seg))
                        (pulled (fst (generate_all env text voice speed use_gpu)))))"
proof -
  let ?t = "normalize_text (CHAR_LIMIT env) text"
  let ?ug = "use_gpu \<and> CUDA_AVAILABLE env"
  have first: "py_index pack (int (length ps) - 1) = Inr r \<and>
      (0 < length ps \<longrightarrow> length ps \<le> length pack \<and> r = pack ! (length ps - 1)) \<and>
      ps \<in> set (map (\<lambda>seg. fst (snd seg))
                  (pulled (fst (generate_first env text voice speed use_gpu))))"
    if x: "(gpu, ps, r, sp) \<in> set (forwards (fst (generate_first env text voice speed use_gpu)))"
    for gpu ps r sp
  proof (cases "call p ?t voice (Some speed)")
    case Stop
    with assms x show ?thesis by (simp add: generate_first_Stop)
  next
    case (Raise e)
    with assms x show ?thesis by (simp add: generate_first_Raise)
  next
    case (Yield seg rest)
    note f = generate_first_Yield_fst [OF assms Yield, of use_gpu]
    from x have "(gpu, ps, r, sp) \<in> set (forwards (fst (segment_io info_first env pack speed ?ug seg)))"
      by (simp add: f)
    from segment_io_forwards [OF this]
    have ps: "ps = fst (snd seg)" and r: "py_index pack (int (length ps) - 1) = Inr r"
      by auto
    from py_index_in_range [OF r] ps r show ?thesis
      by (simp add: f)
  qed
  have all: "py_index pack (int (length ps) - 1) = Inr r \<and>
      (0 < length ps \<longrightarrow> length ps \<le> length pack \<and> r = pack ! (length ps - 1)) \<and>
      ps \<in> set (map (\<lambda>seg. fst (snd seg))
                  (pulled (fst (generate_all env text voice speed use_gpu))))"
    if x: "(gpu, ps, r, sp) \<in> set (forwards (fst (generate_all env text voice speed use_gpu)))"
    for gpu ps r sp
  proof -
    note f = generate_all_fst [OF assms, of "text" speed use_gpu]
    from x have "(gpu, ps, r, sp) \<in> set (forwards (fst (generate_all_loop env pack speed ?ug True
        (call p ?t voice (Some speed)))))"
      by (simp add: f)
    from loop_forwards [OF this]
    have r: "py_index pack (int (length ps) - 1) = Inr r"
      and ps: "ps \<in> (\<lambda>seg. fst (snd seg)) ` set (pulled (fst (generate_all_loop env pack speed ?ug
        True (call p ?t voice (Some speed)))))"
      by auto
    from py_index_in_range [OF r] ps r show ?thesis
      by (simp add: f)
  qed
  from first all show ?thesis by blast
qed

theorem reference_vector_by_phoneme_length_witness:
  "forwards (fst (generate_all stub_env (str_lit ''ab'') (str_lit ''af'') 1 False)) =
     [(False, [97], [1], 1), (False, [98, 98], [2], 1)] \<and>
   py_index [[1], [2], [3 :: real]] (int (length [98, 98 :: nat]) - 1) = Inr [2] \<and>
   [2] = [[1], [2], [3 :: real]] ! (length [98, 98 :: nat] - 1)"
proof -
  have g: "call stub_pipeline (normalize_text (CHAR_LIMIT stub_env) (str_lit ''ab''))
      (str_lit ''af'') (Some 1) = stub_segmenter [97, 98]"
    by (simp add: stub_call stub_normalize)
  have f: "forwards (fst (generate_all stub_env (str_lit ''ab'') (str_lit ''af'') 1 False)) =
      [(False, [97], [1], 1), (False, [98, 98], [2], 1)]"
    by (simp add: generate_all_fst [OF stub_lookup stub_load] g stub_segmenter_simps
        loop_Yield_fst stub_segment_cpu)
  from reference_vector_by_phoneme_length [OF stub_lookup stub_load,
      of "str_lit ''ab''" 1 False]
  show ?thesis by (simp add: f)
qed

section \<open>The prediction entry point\<close>

text \<open>
  Claim C8. \<open>predict\<close> is \<open>predict_spec\<close>: it makes the calls that
  \<open>generate_first\<close> makes with \<open>use_gpu = False\<close> and returns the chunk of its
  result, or raises its exception. Whatever the module's state, it never calls
  the accelerated backend and never takes the fallback.
\<close>

theorem predict_forces_standard:
  "predict env text voice speed = predict_spec env text voice speed \<and>
   fst (predict env text voice speed) = fst (generate_first env text voice speed False) \<and>
   snd (predict env text voice speed) =
     (case snd (generate_first env text voice speed False) of
        Inl e \<Rightarrow> Inl e | Inr res \<Rightarrow> Inr (fst res)) \<and>
   (\<forall>x\<in>set (forwards (fst (predict env text voice speed))). \<not> fst x) \<and>
   notices (fst (predict env text voice speed)) = []"
proof -
  obtain evs res where g: "generate_first env text voice speed False = (evs, res)"
    by (cases "generate_first env text voice speed False")
  have eq: "predict env text voice speed = predict_spec env text voice speed"
    by (cases res) (simp_all add: predict_def predict_spec_def g io_return_def split_beta)
  have f: "fst (predict env text voice speed) = fst (generate_first env text voice speed False)"
    by (cases res) (simp_all add: predict_def g io_return_def)
  have s: "snd (predict env text voice speed) =
     (case snd (generate_first env text voice speed False) of
        Inl e \<Rightarrow> Inl e | Inr res \<Rightarrow> Inr (fst res))"
    by (cases res) (simp_all add: predict_def g io_return_def)
  have std: "\<forall>x\<in>set (forwards (fst (predict env text voice speed))). \<not> fst x"
    unfolding f using generate_first_forwards [of _ env "text" voice speed False] by fastforce
  have quiet: "notices (fst (predict env text voice speed)) = []"
    unfolding f by (rule generate_first_notices) simp
  from eq f s std quiet show ?thesis by blast
qed

theorem predict_forces_standard_witness:
  "predict stub_env (str_lit ''b'') (str_lit ''af'') 1 =
     ([LoadVoice (str_lit ''af''), Run [98] (str_lit ''af'') (Some 1), Pull ([98], [98, 98], None),
       Forward False [98, 98] [2] 1], Inr (Some (24000, [2, 2])))"
proof -
  have c: "call stub_pipeline (normalize_text (CHAR_LIMIT stub_env) (str_lit ''b''))
      (str_lit ''af'') (Some 1) = Yield ([98], [98, 98], None) Stop"
    by (simp add: stub_call stub_normalize_more stub_segmenter_simps)
  have "generate_first stub_env (str_lit ''b'') (str_lit ''af'') 1 False =
      ([LoadVoice (str_lit ''af''), Run [98] (str_lit ''af'') (Some 1), Pull ([98], [98, 98], None),
        Forward False [98, 98] [2] 1], Inr (Some (24000, [2, 2]), [98, 98]))"
    by (simp add: generate_first_Yield [OF stub_lookup stub_load c] stub_segment_cpu
        stub_normalize_more io_return_def)
  with predict_forces_standard [of stub_env "str_lit ''b''" "str_lit ''af''" 1]
  show ?thesis by (simp add: predict_spec_def)
qed

section \<open>This build runs on the standard backend\<close>

text \<open>
  Claim C9. In the module as the source builds it, \<open>CUDA_AVAILABLE\<close> is
  \<open>False\<close> and \<open>models\<close> has the key \<open>False\<close> only. So \<open>generate_first\<close> and
  \<open>generate_all\<close> do the same with any \<open>use_gpu\<close> as with \<open>use_gpu = False\<close>: every
  backend call goes to the standard model, no fallback warning or note is
  issued, and \<open>forward_gpu\<close>, were it called, would raise \<open>KeyError\<close>.
\<close>

theorem module_env_standard_only:
  "CUDA_AVAILABLE (module_env d m P) = False \<and>
   models (module_env d m P) True = None \<and>
   models (module_env d m P) False = Some m \<and>
   generate_first (module_env d m P) text voice speed use_gpu =
     generate_first (module_env d m P) text voice speed False \<and>
   generate_all (module_env d m P) text voice speed use_gpu =
     generate_all (module_env d m P) text voice speed False \<and>
   (\<forall>x\<in>set (forwards (fst (generate_first (module_env d m P) text voice speed use_gpu))).
      \<not> fst x) \<and>
   (\<forall>x\<in>set (forwards (fst (generate_all (module_env d m P) text voice speed use_gpu))).
      \<not> fst x) \<and>
   notices (fst (generate_first (module_env d m P) text voice speed use_gpu)) = [] \<and>
   notices (fst (generate_all (module_env d m P) text voice speed use_gpu)) = [] \<and>
   forward_gpu (module_env d m P) ps r speed = ([], Inl KeyError)"
proof -
  let ?env = "module_env d m P"
  have off: "\<not> (use_gpu \<and> CUDA_AVAILABLE ?env)"
    by (simp add: module_env_fields)
  have gf: "generate_first ?env text voice speed use_gpu = generate_first ?env text voice speed False"
    by (simp add: generate_first_def module_env_fields)
  have ga: "generate_all ?env text voice speed use_gpu = generate_all ?env text voice speed False"
    by (simp add: generate_all_def module_env_fields)
  have f1: "\<forall>x\<in>set (forwards (fst (generate_first ?env text voice speed use_gpu))). \<not> fst x"
    using generate_first_forwards [of _ ?env "text" voice speed use_gpu] off by fastforce
  have f2: "\<forall>x\<in>set (forwards (fst (generate_all ?env text voice speed use_gpu))). \<not> fst x"
    using generate_all_forwards [of _ ?env "text" voice speed use_gpu] off by fastforce
  have n1: "notices (fst (generate_first ?env text voice speed use_gpu)) = []"
    using off by (rule generate_first_notices)
  have n2: "notices (fst (generate_all ?env text voice speed use_gpu)) = []"
    using off by (rule generate_all_notices)
  have k: "forward_gpu ?env ps r speed = ([], Inl KeyError)"
    by (simp add: forward_gpu_def call_model_def module_env_fields io_raise_def)
  from gf ga f1 f2 n1 n2 k show ?thesis
    by (simp add: module_env_fields)
qed

theorem module_env_standard_only_witness:
  "generate_all (module_env False stub_cpu (\<lambda>c. stub_pipeline)) (str_lit ''ab'') (str_lit ''af'')
      1 True =
     ([LoadVoice (str_lit ''af''), Run [97, 98] (str_lit ''af'') (Some 1),
       Pull ([97], [97], None), Forward False [97] [1] 1, Emit (24000, [1, 1]), Emit (24000, [0]),
       Pull ([98], [98, 98], None), Forward False [98, 98] [2] 1, Emit (24000, [2, 2])],
      Inr ())"
proof -
  let ?env = "module_env False stub_cpu (\<lambda>c. stub_pipeline)"
  have t: "normalize_text (CHAR_LIMIT ?env) (str_lit ''ab'') = [97, 98]"
    by (simp add: module_env_fields normalize_text_def str_lit_def py_slice_to_def py_strip_def
        py_isspace_def)
  have l: "lookup_pipeline ?env (str_lit ''af'') = io_return stub_pipeline"
    by (simp add: lookup_pipeline_def module_env_fields str_lit_def)
  have s: "synthesize info_all ?env False [97] [1] 1 = ([Forward False [97] [1] 1], Inr [1, 1])"
    "synthesize info_all ?env False [98, 98] [2] 1 = ([Forward False [98, 98] [2] 1], Inr [2, 2])"
    by (simp_all add: synthesize_def call_model_def module_env_fields stub_cpu_def)
  have "generate_all ?env (str_lit ''ab'') (str_lit ''af'') 1 False =
     ([LoadVoice (str_lit ''af''), Run [97, 98] (str_lit ''af'') (Some 1),
       Pull ([97], [97], None), Forward False [97] [1] 1, Emit (24000, [1, 1]), Emit (24000, [0]),
       Pull ([98], [98, 98], None), Forward False [98, 98] [2] 1, Emit (24000, [2, 2])],
      Inr ())"
    by (simp add: generate_all_def l t do_load_voice_def stub_load stub_call stub_segmenter_simps
        generate_all_loop.simps(3) py_index_def s io_tell_def io_lift_def io_return_def)
  with module_env_standard_only [of False stub_cpu "\<lambda>c. stub_pipeline" "str_lit ''ab''"
      "str_lit ''af''" 1 True]
  show ?thesis by simp
qed

section \<open>Tokenizing takes the raw text\<close>

text \<open>
  Claim C10. When the voice's language resolves to a pipeline,
  \<open>tokenize_first\<close> calls the segmenter exactly once, on the text as given and
  with no speed argument; it returns the phoneme string of the first segment,
  or the empty string when the sequence ends at once (an exception of the
  segmenter propagates); it pulls at most one segment and calls no backend.
\<close>

theorem tokenize_first_raw_text:
  assumes "lookup_pipeline env voice = io_return p"
  shows "segmenter_inputs (fst (tokenize_first env text voice)) = [(text, voice, None)] \<and>
         snd (tokenize_first env text voice) =
           (case call p text voice None of
              Stop \<Rightarrow> Inr []
            | Raise e \<Rightarrow> Inl e
            | Yield seg rest \<Rightarrow> Inr (fst (snd seg))) \<and>
         pulled (fst (tokenize_first env text voice)) = take 1 (items (call p text voice None)) \<and>
         forwards (fst (tokenize_first env text voice)) = []"
  using assms
  by (cases "call p text voice None")
     (simp_all add: tokenize_first_def fst_io_bind snd_io_bind)

theorem tokenize_first_raw_text_witness:
  "segmenter_inputs (fst (tokenize_first stub_env (str_lit ''  b'') (str_lit ''af''))) =
     [(str_lit ''  b'', str_lit ''af'', None)] \<and>
   snd (tokenize_first stub_env (str_lit ''  b'') (str_lit ''af'')) = Inr [] \<and>
   segmenter_inputs (fst (generate_first stub_env (str_lit ''  b'') (str_lit ''af'') 1 False)) =
     [([98], str_lit ''af'', Some 1)]"
proof -
  have c: "call stub_pipeline (str_lit ''  b'') (str_lit ''af'') None =
      Yield ([32], [], None) (stub_segmenter [32, 98])"
    by (simp add: stub_call str_lit_def stub_segmenter_space)
  have c': "call stub_pipeline (normalize_text (CHAR_LIMIT stub_env) (str_lit ''  b''))
      (str_lit ''af'') (Some 1) = Yield ([98], [98, 98], None) Stop"
    by (simp add: stub_call stub_normalize_more stub_segmenter_simps)
  have g: "segmenter_inputs (fst (generate_first stub_env (str_lit ''  b'') (str_lit ''af'') 1 False)) =
     [([98], str_lit ''af'', Some 1)]"
    by (simp add: generate_first_Yield_fst [OF stub_lookup stub_load c'] stub_normalize_more)
  from tokenize_first_raw_text [OF stub_lookup, of "str_lit ''  b''"] g
  show ?thesis by (simp add: c)
qed

end
